theory Spec2Isabelle
  imports Complex_Main "HOL-Library.Word" "HOL-Library.Sublist" "HOL-Library.Multiset"
begin

section \<open>Values of the host language\<close>

text \<open>
  A JavaScript string is a sequence of UTF-16 code units. String constants of the source
  are ASCII and are written with \<open>js\<close>.
\<close>

type_synonym jsstring = "16 word list"

definition js :: "string \<Rightarrow> jsstring" where
  "js s = map of_char s"

text \<open>
  The values \<open>JSON.parse\<close> can produce. A number is the value of the parsed double, a
  rational; arithmetic on moods is exact here, the rounding of doubles is not modelled.
  A request field that is missing (\<open>undefined\<close>) is \<open>None\<close>.
\<close>

datatype json =
    JNull
  | JBool bool
  | JNum rat
  | JStr jsstring
  | JArr "json list"
  | JObj "(jsstring \<times> json) list"

datatype js_error = TypeError | ValidationError | CastError | StoreError | UpstreamError

text \<open>\<open>String.prototype.trim\<close>: strips WhiteSpace and LineTerminator code units at both ends.\<close>

definition isWhiteSpace :: "16 word \<Rightarrow> bool" where
  "isWhiteSpace c =
     (c \<in> {0x9, 0xA, 0xB, 0xC, 0xD, 0x20, 0xA0, 0x1680, 0x2028, 0x2029, 0x202F, 0x205F,
            0x3000, 0xFEFF}
      \<or> (0x2000 \<le> c \<and> c \<le> 0x200A))"

definition trim :: "jsstring \<Rightarrow> jsstring" where
  "trim s = rev (dropWhile isWhiteSpace (rev (dropWhile isWhiteSpace s)))"

section \<open>The record store (models/MoodEntry)\<close>

text \<open>
  One document of the collection. The identifier is assigned by the store; \<open>timestamp\<close> is
  a \<open>Date\<close>, milliseconds since the epoch. The bookkeeping fields \<open>createdAt\<close> and
  \<open>updatedAt\<close> are left out: no handler reads them.
\<close>

record mood_entry =
  entry_id :: nat
  mood :: rat
  timestamp :: int
  note' :: "jsstring option"
  song :: "jsstring option"

record store =
  entries :: "mood_entry list"
  next_id :: nat

definition empty_store :: store where
  "empty_store = \<lparr>entries = [], next_id = 0\<rparr>"

text \<open>
  A track of a playlist, as the handler reads it and as the catalog sends it;
  \<open>sp_release_year\<close> is the year that \<open>new Date(release_date).getFullYear()\<close>
  gives, absent without a release date.
\<close>

record playlist_track =
  title :: jsstring
  artist :: jsstring
  genre :: "jsstring option"
  year :: "int option"
  album :: "jsstring option"
  duration :: "int option"

record spotify_track =
  sp_name :: jsstring
  sp_artists :: "jsstring list"
  sp_album :: jsstring
  sp_release_year :: "int option"
  sp_duration_ms :: int

text \<open>
  What a request finds around it: the clock, the server's time zone (local time minus UTC,
  in milliseconds), whether the database answers, the configured credentials, and what the
  two remote services answer when they are called (\<open>None\<close>: the call throws).
\<close>

record env =
  now :: int
  tz_offset :: int
  db_up :: bool
  gemini_key :: bool
  ai_reply :: "jsstring option"
  spotify_creds :: bool
  spotify_token :: "jsstring option"
  spotify_info :: "(jsstring \<times> nat) option"
  spotify_items :: "spotify_track option list option"

text \<open>The schema: \<open>mood\<close> required with \<open>min 0\<close>, \<open>max 4\<close>; \<open>note\<close> at most 500 and
  \<open>song\<close> at most 200 code units.\<close>

definition maxlength :: "nat \<Rightarrow> jsstring option \<Rightarrow> bool" where
  "maxlength n v = (case v of None \<Rightarrow> True | Some t \<Rightarrow> length t \<le> n)"

definition schema_valid :: "mood_entry \<Rightarrow> bool" where
  "schema_valid e = (0 \<le> mood e \<and> mood e \<le> 4 \<and> maxlength 500 (note' e) \<and> maxlength 200 (song e))"

text \<open>\<open>save\<close>: validation runs first, then the insert; either may throw.\<close>

definition save :: "env \<Rightarrow> mood_entry \<Rightarrow> store \<Rightarrow> js_error + (mood_entry \<times> store)" where
  "save env e s =
     (if \<not> schema_valid e then Inl ValidationError
      else if \<not> db_up env then Inl StoreError
      else let e' = e\<lparr>entry_id := next_id s\<rparr>
           in Inr (e', \<lparr>entries = entries s @ [e'], next_id = Suc (next_id s)\<rparr>))"

definition find_all :: "env \<Rightarrow> store \<Rightarrow> js_error + mood_entry list" where
  "find_all env s = (if db_up env then Inr (entries s) else Inl StoreError)"

text \<open>\<open>sort({timestamp: -1})\<close>: most recent first.\<close>

definition sort_desc :: "mood_entry list \<Rightarrow> mood_entry list" where
  "sort_desc es = sort_key (\<lambda>e. - timestamp e) es"

text \<open>The \<open>:id\<close> route parameter: empty, not castable to an object id, or an object id.\<close>

datatype id_param = NoId | BadId | Oid nat

definition findByIdAndDelete :: "env \<Rightarrow> id_param \<Rightarrow> store \<Rightarrow> js_error + (mood_entry option \<times> store)" where
  "findByIdAndDelete env p s =
     (case p of
        Oid i \<Rightarrow>
          if \<not> db_up env then Inl StoreError
          else (case List.find (\<lambda>e. entry_id e = i) (entries s) of
                  None \<Rightarrow> Inr (None, s)
                | Some e \<Rightarrow> Inr (Some e, s\<lparr>entries := filter (\<lambda>x. entry_id x \<noteq> i) (entries s)\<rparr>))
      | _ \<Rightarrow> Inl CastError)"

section \<open>Responses\<close>

text \<open>The gateway calls a handler makes, in order.\<close>

datatype call = AiGenerate | CatalogToken | CatalogPlaylistInfo | CatalogPlaylistTracks

record daily_average =
  date :: int
  averageMood :: rat
  entryCount :: nat

datatype insight_text =
    Starter "string list" "string list"
  | FromAi json
  | Templated rat nat nat

text \<open>The body of the insights answer; \<open>overallAverage\<close> is sent under the key
  \<open>averageMood\<close>.\<close>

record insights_payload =
  texts :: insight_text
  overallAverage :: rat
  streak :: nat
  totalDays :: nat
  dailyAverages :: "daily_average list"

record song_recommendation =
  rec_title :: string
  rec_artist :: string
  rec_reason :: string
  rec_energy :: rat
  rec_mood_match :: rat

record playlist_metadata =
  playlistName :: jsstring
  totalTracks :: nat
  analyzedTracks :: nat

datatype response =
    ErrorBody nat string
  | MoodCreated mood_entry "jsstring option"
  | MoodList "mood_entry list"
  | MoodDeleted mood_entry
  | InsightsBody insights_payload
  | AiRecommendations json
  | FallbackRecommendations "song_recommendation list" string
  | PersonalityProfile json playlist_metadata

fun status :: "response \<Rightarrow> nat" where
  "status (ErrorBody c _) = c"
| "status _ = 200"

section \<open>GET /api/moods\<close>

definition get_moods :: "env \<Rightarrow> store \<Rightarrow> response" where
  "get_moods env s =
     (case find_all env s of
        Inl _ \<Rightarrow> ErrorBody 500 ''Failed to fetch mood entries''
      | Inr es \<Rightarrow> MoodList (take 50 (sort_desc es)))"

section \<open>POST /api/moods\<close>

record mood_entry_request =
  req_mood :: "json option"
  req_note :: "json option"
  req_song :: "json option"

text \<open>\<open>typeof mood !== 'number'\<close>.\<close>

definition as_number :: "json option \<Rightarrow> rat option" where
  "as_number v = (case v of Some (JNum m) \<Rightarrow> Some m | _ \<Rightarrow> None)"

text \<open>
  \<open>note?.trim() || undefined\<close>: \<open>undefined\<close> and \<open>null\<close> short-circuit, a string is
  trimmed and the empty result replaced by \<open>undefined\<close>, any other value has no \<open>trim\<close>
  method and the call throws.
\<close>

definition trim_or_undefined :: "json option \<Rightarrow> js_error + jsstring option" where
  "trim_or_undefined v =
     (case v of
        None \<Rightarrow> Inr None
      | Some JNull \<Rightarrow> Inr None
      | Some (JStr t) \<Rightarrow> Inr (if trim t = [] then None else Some (trim t))
      | Some _ \<Rightarrow> Inl TypeError)"

definition mood_error :: response where
  "mood_error = ErrorBody 400 ''Mood must be a number between 0 and 4''"

definition create_error :: response where
  "create_error = ErrorBody 500 ''Failed to create mood entry''"

text \<open>The insight of the entry: \<open>null\<close> without a key, and \<open>null\<close> when the call throws.\<close>

definition entry_insight :: "env \<Rightarrow> jsstring option \<times> call list" where
  "entry_insight env =
     (if gemini_key env
      then (case ai_reply env of None \<Rightarrow> (None, [AiGenerate]) | Some t \<Rightarrow> (Some (trim t), [AiGenerate]))
      else (None, []))"

definition post_moods :: "env \<Rightarrow> mood_entry_request \<Rightarrow> store \<Rightarrow> response \<times> store \<times> call list" where
  "post_moods env body s =
     (case as_number (req_mood body) of
        None \<Rightarrow> (mood_error, s, [])
      | Some m \<Rightarrow>
          if m < 0 \<or> m > 4 then (mood_error, s, [])
          else (case trim_or_undefined (req_note body) of
                  Inl _ \<Rightarrow> (create_error, s, [])
                | Inr n \<Rightarrow>
                   (case trim_or_undefined (req_song body) of
                      Inl _ \<Rightarrow> (create_error, s, [])
                    | Inr sg \<Rightarrow>
                       (case save env \<lparr>entry_id = 0, mood = m, timestamp = now env,
                                        note' = n, song = sg\<rparr> s of
                          Inl _ \<Rightarrow> (create_error, s, [])
                        | Inr (savedEntry, s') \<Rightarrow>
                            (MoodCreated savedEntry (fst (entry_insight env)), s',
                             snd (entry_insight env))))))"

section \<open>DELETE /api/moods/:id\<close>

definition delete_mood :: "env \<Rightarrow> id_param \<Rightarrow> store \<Rightarrow> response \<times> store" where
  "delete_mood env p s =
     (if p = NoId then (ErrorBody 400 ''Mood entry ID is required'', s)
      else (case findByIdAndDelete env p s of
              Inl _ \<Rightarrow> (ErrorBody 500 ''Failed to delete mood entry'', s)
            | Inr (None, _) \<Rightarrow> (ErrorBody 404 ''Mood entry not found'', s)
            | Inr (Some e, s') \<Rightarrow> (MoodDeleted e, s')))"

section \<open>Sequences of creates and deletes\<close>

datatype request = PostMood mood_entry_request | DeleteMood id_param

fun handle :: "env \<times> request \<Rightarrow> store \<Rightarrow> store" where
  "handle (env, PostMood body) s = fst (snd (post_moods env body s))"
| "handle (env, DeleteMood p) s = snd (delete_mood env p s)"

fun run :: "(env \<times> request) list \<Rightarrow> store \<Rightarrow> store" where
  "run [] s = s"
| "run (r # rs) s = run rs (handle r s)"

section \<open>GET /api/insights\<close>

text \<open>
  \<open>entry.timestamp.toISOString().split('T')[0]\<close> is the UTC calendar date of the entry,
  \<open>YYYY-MM-DD\<close>. It is represented by the number of that day since the epoch, which
  determines the text and is determined by it; \<open>new Date(date).getTime()\<close>, the UTC midnight
  of the day, is then \<open>date * 86400000\<close>.
\<close>

definition msPerDay :: int where
  "msPerDay = 86400000"

definition dateKey :: "mood_entry \<Rightarrow> int" where
  "dateKey e = timestamp e div msPerDay"

text \<open>The \<open>Map\<close> from date to moods keeps its keys in the order of their first insertion.\<close>

fun push_mood :: "int \<Rightarrow> rat \<Rightarrow> (int \<times> rat list) list \<Rightarrow> (int \<times> rat list) list" where
  "push_mood k m [] = [(k, [m])]"
| "push_mood k m ((k', ms) # rest) =
     (if k = k' then (k', ms @ [m]) # rest else (k', ms) # push_mood k m rest)"

definition dailyMoods :: "mood_entry list \<Rightarrow> (int \<times> rat list) list" where
  "dailyMoods es = foldl (\<lambda>acc e. push_mood (dateKey e) (mood e) acc) [] es"

definition daily_row :: "int \<times> rat list \<Rightarrow> daily_average" where
  "daily_row p =
     \<lparr>date = fst p,
      averageMood = foldl (+) 0 (snd p) / of_nat (length (snd p)),
      entryCount = length (snd p)\<rparr>"

definition daily_averages_of :: "mood_entry list \<Rightarrow> daily_average list" where
  "daily_averages_of es = sort_key (\<lambda>d. - date d) (map daily_row (dailyMoods es))"

text \<open>
  \<open>today.setHours(0, 0, 0, 0)\<close> is the midnight of the server's local day, and
  \<open>setDate(today.getDate() - i)\<close> the local midnight \<open>i\<close> days earlier. The time zone
  is taken at a fixed offset from UTC: this is exact for a zone without daylight saving
  time (UTC itself, Asia/Kolkata); in a zone that changes its offset the local midnights of
  the source are not all a whole number of days apart, and the model does not cover them.
\<close>

definition local_midnight :: "env \<Rightarrow> int" where
  "local_midnight env = ((now env + tz_offset env) div msPerDay) * msPerDay - tz_offset env"

definition expectedDate :: "env \<Rightarrow> nat \<Rightarrow> int" where
  "expectedDate env i = local_midnight env - int i * msPerDay"

fun streak_loop :: "env \<Rightarrow> nat \<Rightarrow> daily_average list \<Rightarrow> nat" where
  "streak_loop env i [] = 0"
| "streak_loop env i (d # ds) =
     (if date d * msPerDay = expectedDate env i then Suc (streak_loop env (Suc i) ds) else 0)"

definition overall_average :: "daily_average list \<Rightarrow> rat" where
  "overall_average ds = foldl (\<lambda>sum day. sum + averageMood day) 0 ds / of_nat (length ds)"

text \<open>
  The texts of the answer: the parsed reply of the AI service when it can be read
  (\<open>aiResponse.insights\<close> on \<open>null\<close> throws), else two sentences built from the average, the
  number of days and the streak. \<open>JSON.parse\<close> is a parameter.
\<close>

definition insight_texts :: "(jsstring \<Rightarrow> json option) \<Rightarrow> env \<Rightarrow> rat \<Rightarrow> nat \<Rightarrow> nat \<Rightarrow> insight_text \<times> call list" where
  "insight_texts parse env avg days run_len =
     (if gemini_key env
      then (case ai_reply env of
              None \<Rightarrow> (Templated avg days run_len, [AiGenerate])
            | Some t \<Rightarrow>
               (case parse t of
                  None \<Rightarrow> (Templated avg days run_len, [AiGenerate])
                | Some JNull \<Rightarrow> (Templated avg days run_len, [AiGenerate])
                | Some j \<Rightarrow> (FromAi j, [AiGenerate])))
      else (Templated avg days run_len, []))"

definition starter_payload :: insights_payload where
  "starter_payload =
     \<lparr>texts = Starter [''Start tracking your mood to get personalized insights!'']
                        [''Record your first mood entry to begin your journey.''],
      overallAverage = 2, streak = 0, totalDays = 0, dailyAverages = []\<rparr>"

definition get_insights :: "(jsstring \<Rightarrow> json option) \<Rightarrow> env \<Rightarrow> store \<Rightarrow> response \<times> call list" where
  "get_insights parse env s =
     (case find_all env s of
        Inl _ \<Rightarrow> (ErrorBody 500 ''Failed to generate insights'', [])
      | Inr found \<Rightarrow>
          let moodEntries = sort_desc found in
          if moodEntries = [] then (InsightsBody starter_payload, [])
          else let ds = daily_averages_of moodEntries;
                   run_len = streak_loop env 0 ds;
                   avg = overall_average ds;
                   tc = insight_texts parse env avg (length ds) run_len
               in (InsightsBody \<lparr>texts = fst tc, overallAverage = avg, streak = run_len,
                                  totalDays = length ds, dailyAverages = take 30 ds\<rparr>, snd tc))"

section \<open>The catalog gateway\<close>

text \<open>The character class \<open>[a-zA-Z0-9]\<close>.\<close>

definition isAlnum :: "16 word \<Rightarrow> bool" where
  "isAlnum c = ((0x61 \<le> c \<and> c \<le> 0x7A) \<or> (0x41 \<le> c \<and> c \<le> 0x5A) \<or> (0x30 \<le> c \<and> c \<le> 0x39))"

text \<open>
  A pattern \<open>lit([a-zA-Z0-9]+)\<close> tried at the start of \<open>s\<close>: the group is greedy and nothing
  follows it, so it captures the longest run of class characters after the literal.
\<close>

definition match_here :: "jsstring \<Rightarrow> jsstring \<Rightarrow> jsstring option" where
  "match_here lit s =
     (if prefix lit s \<and> takeWhile isAlnum (drop (length lit) s) \<noteq> []
      then Some (takeWhile isAlnum (drop (length lit) s)) else None)"

text \<open>Without an anchor the pattern is tried at every position, leftmost first.\<close>

fun search :: "jsstring \<Rightarrow> jsstring \<Rightarrow> jsstring option" where
  "search lit [] = match_here lit []"
| "search lit (c # cs) =
     (case match_here lit (c # cs) of Some g \<Rightarrow> Some g | None \<Rightarrow> search lit cs)"

text \<open>\<open>/^([a-zA-Z0-9]+)$/\<close>.\<close>

definition match_whole :: "jsstring \<Rightarrow> jsstring option" where
  "match_whole s = (if s \<noteq> [] \<and> list_all isAlnum s then Some s else None)"

definition patterns :: "(jsstring \<Rightarrow> jsstring option) list" where
  "patterns =
     [search (js ''spotify:playlist:''),
      search (js ''open.spotify.com/playlist/''),
      match_whole]"

fun first_match :: "(jsstring \<Rightarrow> jsstring option) list \<Rightarrow> jsstring \<Rightarrow> jsstring option" where
  "first_match [] s = None"
| "first_match (p # ps) s = (case p s of Some g \<Rightarrow> Some g | None \<Rightarrow> first_match ps s)"

definition extractPlaylistId :: "jsstring \<Rightarrow> jsstring option" where
  "extractPlaylistId spotifyUrl = first_match patterns spotifyUrl"

definition getSpotifyAccessToken :: "env \<Rightarrow> jsstring option \<times> call list" where
  "getSpotifyAccessToken env =
     (if \<not> spotify_creds env then (None, []) else (spotify_token env, [CatalogToken]))"

fun join :: "jsstring \<Rightarrow> jsstring list \<Rightarrow> jsstring" where
  "join sep [] = []"
| "join sep [x] = x"
| "join sep (x # y # ys) = x @ sep @ join sep (y # ys)"

definition to_playlist_track :: "spotify_track \<Rightarrow> playlist_track" where
  "to_playlist_track t =
     \<lparr>title = sp_name t, artist = join (js '', '') (sp_artists t), genre = None,
      year = sp_release_year t, album = Some (sp_album t),
      duration = Some (sp_duration_ms t div 1000)\<rparr>"

definition kept_items :: "spotify_track option list \<Rightarrow> spotify_track list" where
  "kept_items items = filter (\<lambda>t. sp_name t \<noteq> []) (List.map_filter (\<lambda>x. x) items)"

definition getSpotifyPlaylistTracks ::
    "env \<Rightarrow> (js_error + (playlist_track list \<times> nat \<times> jsstring)) \<times> call list" where
  "getSpotifyPlaylistTracks env =
     (case spotify_info env of
        None \<Rightarrow> (Inl UpstreamError, [CatalogPlaylistInfo])
      | Some (name, totalPlaylistTracks) \<Rightarrow>
         (case spotify_items env of
            None \<Rightarrow> (Inl UpstreamError, [CatalogPlaylistInfo, CatalogPlaylistTracks])
          | Some items \<Rightarrow>
              (Inr (map to_playlist_track (kept_items items), totalPlaylistTracks, name),
               [CatalogPlaylistInfo, CatalogPlaylistTracks])))"

section \<open>POST /api/playlist/analyze\<close>

record playlist_request =
  spotifyUrl :: "jsstring option"
  tracks :: "playlist_track list option"

text \<open>
  The reply of the AI service loses a Markdown fence: when it starts with the opening fence,
  that fence with one following newline, and a closing fence at the very end with one
  preceding newline, are removed.
\<close>

definition fence :: jsstring where
  "fence = [0x60, 0x60, 0x60]"

definition strip_opening :: "jsstring \<Rightarrow> jsstring" where
  "strip_opening t =
     (let r = drop (length (fence @ js ''json'')) t
      in case r of [] \<Rightarrow> [] | c # cs \<Rightarrow> if c = 0xA then cs else r)"

definition strip_closing :: "jsstring \<Rightarrow> jsstring" where
  "strip_closing t =
     (if suffix (0xA # fence) t then take (length t - 4) t
      else if suffix fence t then take (length t - 3) t
      else t)"

definition strip_fences :: "jsstring \<Rightarrow> jsstring" where
  "strip_fences t = (if prefix (fence @ js ''json'') t then strip_closing (strip_opening t) else t)"

text \<open>From the track list on: the checks, the one AI call and the parse of its reply.\<close>

definition analyze_tracks ::
    "(jsstring \<Rightarrow> json option) \<Rightarrow> env \<Rightarrow> playlist_track list \<Rightarrow> nat \<Rightarrow> jsstring \<Rightarrow> call list
       \<Rightarrow> response \<times> call list" where
  "analyze_tracks parse env playlistTracks totalPlaylistTracks name cs =
     (if playlistTracks = [] then (ErrorBody 400 ''No tracks found in the playlist.'', cs)
      else if \<not> gemini_key env then (ErrorBody 500 ''AI service not configured'', cs)
      else (case ai_reply env of
              None \<Rightarrow> (ErrorBody 500 ''Failed to analyze playlist'', cs @ [AiGenerate])
            | Some t \<Rightarrow>
               (case parse (strip_fences (trim t)) of
                  None \<Rightarrow> (ErrorBody 500 ''Failed to analyze playlist - invalid AI response format'',
                            cs @ [AiGenerate])
                | Some aiResponse \<Rightarrow>
                    (PersonalityProfile aiResponse
                       \<lparr>playlistName = name, totalTracks = totalPlaylistTracks,
                        analyzedTracks = length playlistTracks\<rparr>,
                     cs @ [AiGenerate]))))"

definition truthy :: "jsstring option \<Rightarrow> bool" where
  "truthy v = (case v of None \<Rightarrow> False | Some t \<Rightarrow> t \<noteq> [])"

text \<open>The branch of a catalog URL: the id, the token, the two catalog reads, the analysis.\<close>

definition catalog_path ::
    "(jsstring \<Rightarrow> json option) \<Rightarrow> env \<Rightarrow> jsstring \<Rightarrow> response \<times> call list" where
  "catalog_path parse env url =
     (case extractPlaylistId url of
        None \<Rightarrow>
          (ErrorBody 400 ''Invalid Spotify URL. Please provide a valid Spotify playlist URL or ID.'', [])
      | Some playlistId \<Rightarrow>
          let tok = getSpotifyAccessToken env in
          if \<not> truthy (fst tok)
          then (ErrorBody 500 ''Spotify integration not configured. Please set SPOTIFY_CLIENT_ID and SPOTIFY_CLIENT_SECRET.'',
                snd tok)
          else (case getSpotifyPlaylistTracks env of
                  (Inl _, cs) \<Rightarrow>
                    (ErrorBody 400 ''Failed to fetch playlist from Spotify. Please check the URL and make sure the playlist is public.'',
                     snd tok @ cs)
                | (Inr (ts, totalPlaylistTracks, name), cs) \<Rightarrow>
                    analyze_tracks parse env ts totalPlaylistTracks name (snd tok @ cs)))"

text \<open>The branch of manually provided tracks: \<open>tracks && Array.isArray(tracks) && tracks.length > 0\<close>.\<close>

definition manual_path ::
    "(jsstring \<Rightarrow> json option) \<Rightarrow> env \<Rightarrow> playlist_track list option \<Rightarrow> response \<times> call list" where
  "manual_path parse env given =
     (case given of
        Some (t # ts) \<Rightarrow>
          analyze_tracks parse env (t # ts) (length (t # ts)) (js ''Manual Playlist'') []
      | _ \<Rightarrow>
          (ErrorBody 400 ''Please provide either a Spotify playlist URL or an array of tracks.'', []))"

text \<open>\<open>if (spotifyUrl)\<close>: a missing and an empty URL both go to the manual branch.\<close>

definition post_playlist_analyze ::
    "(jsstring \<Rightarrow> json option) \<Rightarrow> env \<Rightarrow> playlist_request \<Rightarrow> response \<times> call list" where
  "post_playlist_analyze parse env body =
     (if truthy (spotifyUrl body)
      then (case spotifyUrl body of
              Some url \<Rightarrow> catalog_path parse env url
            | None \<Rightarrow> manual_path parse env (tracks body))
      else manual_path parse env (tracks body))"

text \<open>The form of the frontend (\<open>analyzePersonality\<close>): what it does when asked to analyze.\<close>

datatype ui_action = ShowError string | SendRequest playlist_request

definition analyzePersonality :: "bool \<Rightarrow> jsstring \<Rightarrow> playlist_track list \<Rightarrow> ui_action" where
  "analyzePersonality useSpotify url ts =
     (if useSpotify then
        (if trim url = [] then ShowError ''Please enter a valid Spotify playlist URL''
         else SendRequest \<lparr>spotifyUrl = Some (trim url), tracks = None\<rparr>)
      else
        (let validTracks = filter (\<lambda>track. trim (title track) \<noteq> [] \<and> trim (artist track) \<noteq> []) ts
         in if length validTracks < 3
            then ShowError ''Please add at least 3 complete songs (title and artist required)''
            else SendRequest \<lparr>spotifyUrl = None, tracks = Some validTracks\<rparr>))"

section \<open>POST /api/recommend-songs\<close>

text \<open>\<open>note\<close>, \<open>genre\<close> and \<open>previousSongs\<close> only enter the prompt; they have their declared types.\<close>

record recommend_request =
  rq_mood :: "json option"
  rq_note :: "jsstring option"
  rq_genre :: "jsstring option"
  previousSongs :: "jsstring list option"

definition fallbackRecommendations :: "rat \<Rightarrow> response" where
  "fallbackRecommendations m =
     FallbackRecommendations
       (take (if m \<ge> 3 then 2 else 3)
         [\<lparr>rec_title = ''Here Comes the Sun'', rec_artist = ''The Beatles'',
           rec_reason = ''A timeless uplifting classic that brightens any mood.'',
           rec_energy = 38 / 10, rec_mood_match = 4\<rparr>,
          \<lparr>rec_title = ''Good as Hell'', rec_artist = ''Lizzo'',
           rec_reason = ''Empowering and energetic, perfect for self-love.'',
           rec_energy = 45 / 10, rec_mood_match = (if m \<ge> 3 then 42 / 10 else 3)\<rparr>,
          \<lparr>rec_title = ''Weightless'', rec_artist = ''Marconi Union'',
           rec_reason = ''Scientifically designed to reduce anxiety and stress.'',
           rec_energy = 15 / 10, rec_mood_match = (if m \<le> 2 then 4 else 25 / 10)\<rparr>])
       (if m \<ge> 3 then ''Upbeat and energizing vibes'' else ''Calming and restorative atmosphere'')"

definition post_recommend_songs ::
    "(jsstring \<Rightarrow> json option) \<Rightarrow> env \<Rightarrow> recommend_request \<Rightarrow> response \<times> call list" where
  "post_recommend_songs parse env body =
     (case as_number (rq_mood body) of
        None \<Rightarrow> (mood_error, [])
      | Some m \<Rightarrow>
          if m < 0 \<or> m > 4 then (mood_error, [])
          else if \<not> gemini_key env then (ErrorBody 500 ''AI service not configured'', [])
          else (case ai_reply env of
                  None \<Rightarrow> (ErrorBody 500 ''Failed to generate song recommendations'', [AiGenerate])
                | Some t \<Rightarrow>
                   (case parse (strip_fences (trim t)) of
                      Some recommendations \<Rightarrow> (AiRecommendations recommendations, [AiGenerate])
                    | None \<Rightarrow> (fallbackRecommendations m, [AiGenerate]))))"

section \<open>Notions of the specification\<close>

text \<open>A mood as the specification wants it: an integer in the closed range from 0 to 4.\<close>

definition integer_in_range :: "json option \<Rightarrow> bool" where
  "integer_in_range v =
     (case v of Some (JNum m) \<Rightarrow> of_int \<lfloor>m\<rfloor> = m \<and> 0 \<le> m \<and> m \<le> 4 | _ \<Rightarrow> False)"

text \<open>A mood that is a number in the closed range from 0 to 4, integer or not.\<close>

definition number_in_range :: "json option \<Rightarrow> bool" where
  "number_in_range v = (case v of Some (JNum m) \<Rightarrow> 0 \<le> m \<and> m \<le> 4 | _ \<Rightarrow> False)"

text \<open>A text field that is absent, empty or made of white space only.\<close>

definition blank :: "json option \<Rightarrow> bool" where
  "blank v = (case v of None \<Rightarrow> True | Some (JStr t) \<Rightarrow> list_all isWhiteSpace t | _ \<Rightarrow> False)"

definition text_ok :: "mood_entry \<Rightarrow> bool" where
  "text_ok e = (note' e \<noteq> Some [] \<and> song e \<noteq> Some [])"

text \<open>Most recent first.\<close>

definition descending :: "mood_entry list \<Rightarrow> bool" where
  "descending es = sorted_wrt (\<lambda>a b. timestamp b \<le> timestamp a) es"

text \<open>
  The mean of a list of moods, the moods recorded on one calendar date, and the mean over
  the dates of the means of each date: every date weighs the same, however many entries it has.
\<close>

definition mean :: "rat list \<Rightarrow> rat" where
  "mean xs = sum_list xs / of_nat (length xs)"

definition moods_on :: "mood_entry list \<Rightarrow> int \<Rightarrow> rat list" where
  "moods_on es d = map mood (filter (\<lambda>e. dateKey e = d) es)"

definition mean_of_daily_means :: "mood_entry list \<Rightarrow> rat" where
  "mean_of_daily_means es =
     (\<Sum>d\<in>dateKey ` set es. mean (moods_on es d)) / of_nat (card (dateKey ` set es))"

definition lookup_moods :: "(int \<times> rat list) list \<Rightarrow> int \<Rightarrow> rat list" where
  "lookup_moods g d = (case map_of g d of None \<Rightarrow> [] | Some ms \<Rightarrow> ms)"

definition group_step :: "(int \<times> rat list) list \<Rightarrow> mood_entry \<Rightarrow> (int \<times> rat list) list" where
  "group_step acc e = push_mood (dateKey e) (mood e) acc"

text \<open>
  The three accepted formats of a playlist reference: the URI form and the web-link form,
  a fixed text followed by an alphanumeric id somewhere in the input, and the bare id, an
  input that is nothing but a non-empty alphanumeric id.
\<close>

definition contains_id :: "jsstring \<Rightarrow> jsstring \<Rightarrow> bool" where
  "contains_id lit s =
     (\<exists>pre ident rest. s = pre @ lit @ ident @ rest \<and> ident \<noteq> [] \<and> list_all isAlnum ident)"

definition starts_with_id :: "jsstring \<Rightarrow> jsstring \<Rightarrow> bool" where
  "starts_with_id lit s =
     (\<exists>ident rest. s = lit @ ident @ rest \<and> ident \<noteq> [] \<and> list_all isAlnum ident)"

definition uri_form :: "jsstring \<Rightarrow> bool" where
  "uri_form s = contains_id (js ''spotify:playlist:'') s"

definition web_link_form :: "jsstring \<Rightarrow> bool" where
  "web_link_form s = contains_id (js ''open.spotify.com/playlist/'') s"

definition bare_id_form :: "jsstring \<Rightarrow> bool" where
  "bare_id_form s = (s \<noteq> [] \<and> list_all isAlnum s)"

definition accepted_format :: "jsstring \<Rightarrow> bool" where
  "accepted_format s = (uri_form s \<or> web_link_form s \<or> bare_id_form s)"

definition invalid_url_error :: response where
  "invalid_url_error =
     ErrorBody 400 ''Invalid Spotify URL. Please provide a valid Spotify playlist URL or ID.''"

definition no_input_error :: response where
  "no_input_error =
     ErrorBody 400 ''Please provide either a Spotify playlist URL or an array of tracks.''"

section \<open>Sample requests, stores and surroundings\<close>

text \<open>Noon UTC of 10 May 2024, on a server in UTC, the database up, no credentials.\<close>

definition sample_env :: env where
  "sample_env =
     \<lparr>now = 1715342400000, tz_offset = 0, db_up = True, gemini_key = False, ai_reply = None,
      spotify_creds = False, spotify_token = None, spotify_info = None, spotify_items = None\<rparr>"

text \<open>The same moment on a server in Asia/Kolkata, five and a half hours ahead of UTC.\<close>

definition kolkata_env :: env where
  "kolkata_env = sample_env\<lparr>tz_offset := 19800000\<rparr>"

text \<open>The same with the database not answering.\<close>

definition db_down_env :: env where
  "db_down_env = sample_env\<lparr>db_up := False\<rparr>"

text \<open>The AI service configured: unreachable, answering prose, answering \<open>{}\<close>.\<close>

definition ai_down_env :: env where
  "ai_down_env = sample_env\<lparr>gemini_key := True\<rparr>"

definition ai_prose_env :: env where
  "ai_prose_env = sample_env\<lparr>gemini_key := True, ai_reply := Some (js ''Sure! Here are five songs'')\<rparr>"

definition ai_json_env :: env where
  "ai_json_env = sample_env\<lparr>gemini_key := True, ai_reply := Some (js ''{}'')\<rparr>"

text \<open>Two stand-ins for \<open>JSON.parse\<close>: one reads nothing, one reads the empty object only.\<close>

definition no_parse :: "jsstring \<Rightarrow> json option" where
  "no_parse t = None"

definition parse_braces :: "jsstring \<Rightarrow> json option" where
  "parse_braces t = (if t = js ''{}'' then Some (JObj []) else None)"

definition half_body :: mood_entry_request where
  "half_body = \<lparr>req_mood = Some (JNum (5 / 2)), req_note = None, req_song = None\<rparr>"

definition five_body :: mood_entry_request where
  "five_body = \<lparr>req_mood = Some (JNum 5), req_note = None, req_song = None\<rparr>"

definition spaces_body :: mood_entry_request where
  "spaces_body =
     \<lparr>req_mood = Some (JNum 3), req_note = Some (JStr (js ''   '')), req_song = Some (JStr [])\<rparr>"

definition happy_body :: mood_entry_request where
  "happy_body =
     \<lparr>req_mood = Some (JNum 4), req_note = Some (JStr (js '' sunny day '')), req_song = None\<rparr>"

definition sad_request :: recommend_request where
  "sad_request = \<lparr>rq_mood = Some (JNum 1), rq_note = None, rq_genre = None, previousSongs = None\<rparr>"

definition entry_at :: "nat \<Rightarrow> rat \<Rightarrow> int \<Rightarrow> mood_entry" where
  "entry_at i m t = \<lparr>entry_id = i, mood = m, timestamp = t, note' = None, song = None\<rparr>"

text \<open>Entries at 06:30 UTC of 6, 8, 9 and 10 May 2024: today and one, two and four days back,
  in UTC and in Kolkata alike.\<close>

definition four_day_store :: store where
  "four_day_store =
     \<lparr>entries = [entry_at 0 2 1714977000000, entry_at 1 3 1715149800000,
                 entry_at 2 1 1715236200000, entry_at 3 4 1715322600000],
      next_id = 4\<rparr>"

text \<open>Two entries on 10 May 2024, moods 1 and 3.\<close>

definition same_day_store :: store where
  "same_day_store =
     \<lparr>entries = [entry_at 0 1 1715332500000, entry_at 1 3 1715322600000], next_id = 2\<rparr>"

text \<open>One entry of mood 0 on 9 May, two entries of moods 0 and 4 on 10 May.\<close>

definition uneven_store :: store where
  "uneven_store =
     \<lparr>entries = [entry_at 0 0 1715236200000, entry_at 1 0 1715322600000,
                 entry_at 2 4 1715332500000],
      next_id = 3\<rparr>"

definition track_of :: "string \<Rightarrow> string \<Rightarrow> playlist_track" where
  "track_of t a =
     \<lparr>title = js t, artist = js a, genre = None, year = None, album = None, duration = None\<rparr>"

definition two_tracks :: "playlist_track list" where
  "two_tracks = [track_of ''Imagine'' ''John Lennon'', track_of ''Yesterday'' ''The Beatles'']"

definition three_tracks :: "playlist_track list" where
  "three_tracks =
     [track_of ''Imagine'' ''John Lennon'', track_of ''Yesterday'' ''The Beatles'',
      track_of '' '' ''Queen'', track_of ''Help'' ''The Beatles'']"

definition incomplete_tracks :: "playlist_track list" where
  "incomplete_tracks =
     [track_of ''Imagine'' ''John Lennon'', track_of ''Yesterday'' ''  '',
      track_of ''Help'' ''The Beatles'']"

definition history :: "(env \<times> request) list" where
  "history =
     [(sample_env, PostMood spaces_body), (ai_down_env, PostMood happy_body),
      (sample_env, DeleteMood (Oid 0)), (sample_env, PostMood five_body)]"

section \<open>Creating entries\<close>

lemma trim_blank:
  assumes "list_all isWhiteSpace t"
  shows "trim t = []"
proof -
  from assms have d: "dropWhile isWhiteSpace t = []"
    by (induction t) simp_all
  show ?thesis unfolding trim_def d by simp
qed

lemma trim_or_undefined_blank: "blank v \<Longrightarrow> trim_or_undefined v = Inr None"
  by (auto simp: blank_def trim_or_undefined_def trim_blank split: option.splits json.splits)

lemma trim_or_undefined_nonempty: "trim_or_undefined v = Inr (Some t) \<Longrightarrow> t \<noteq> []"
  by (auto simp: trim_or_undefined_def split: option.splits json.splits if_splits)

lemma post_moods_created:
  assumes "post_moods env body s = (MoodCreated e ai, s', cs)"
  shows "\<exists>m. as_number (req_mood body) = Some m \<and> mood e = m
           \<and> trim_or_undefined (req_note body) = Inr (note' e)
           \<and> trim_or_undefined (req_song body) = Inr (song e)
           \<and> entry_id e = next_id s \<and> timestamp e = now env
           \<and> entries s' = entries s @ [e] \<and> next_id s' = Suc (next_id s)"
  using assms
  by (auto simp: post_moods_def save_def Let_def mood_error_def create_error_def
      split: option.splits sum.splits if_splits prod.splits)

lemma post_moods_entries:
  "entries (fst (snd (post_moods env body s))) = entries s
   \<or> (\<exists>e ai cs. post_moods env body s = (MoodCreated e ai, fst (snd (post_moods env body s)), cs))"
  by (auto simp: post_moods_def save_def Let_def split: option.splits sum.splits if_splits prod.splits)

lemma delete_mood_entries: "set (entries (snd (delete_mood env p s))) \<subseteq> set (entries s)"
  by (auto simp: delete_mood_def findByIdAndDelete_def
      split: option.splits sum.splits id_param.splits if_splits)

lemma number_in_range_iff:
  "number_in_range v \<longleftrightarrow> (\<exists>m. as_number v = Some m \<and> 0 \<le> m \<and> m \<le> 4)"
  by (auto simp: number_in_range_def as_number_def split: option.splits json.splits)

lemma post_moods_in_range:
  assumes "number_in_range (req_mood body)"
  shows "status (fst (post_moods env body s)) = 500 \<or> status (fst (post_moods env body s)) = 200"
proof -
  from assms obtain m where "as_number (req_mood body) = Some m" and "0 \<le> m" and "m \<le> 4"
    unfolding number_in_range_iff by blast
  then show ?thesis
    by (auto simp: post_moods_def create_error_def split: sum.splits prod.splits)
qed

text \<open>
  C1, as the specification states it, fails: a mood of 2.5 is a number between 0 and 4, the
  handler asks for no more, and the entry is stored.
\<close>

theorem post_moods_accepts_fraction:
  "\<not> integer_in_range (req_mood half_body) \<and>
   post_moods sample_env half_body empty_store =
     (MoodCreated \<lparr>entry_id = 0, mood = 5 / 2, timestamp = 1715342400000, note' = None, song = None\<rparr> None,
      \<lparr>entries = [\<lparr>entry_id = 0, mood = 5 / 2, timestamp = 1715342400000, note' = None, song = None\<rparr>],
       next_id = 1\<rparr>, [])"
  by code_simp

text \<open>
  C1, amended: for every request body whose mood field is not a number in the closed range
  from 0 to 4 (absent, not a number, or out of range), the handler answers 400, the store is
  unchanged and no gateway is called. A number in the range, integer or not, is never
  answered with 400.
\<close>

theorem post_moods_rejects_mood:
  "(\<not> number_in_range (req_mood body) \<longrightarrow>
      post_moods env body s = (mood_error, s, []) \<and> status mood_error = 400)
   \<and> (number_in_range (req_mood body) \<longrightarrow> status (fst (post_moods env body s)) \<noteq> 400)"
proof (intro conjI impI)
  assume n: "\<not> number_in_range (req_mood body)"
  show "post_moods env body s = (mood_error, s, [])"
  proof (cases "as_number (req_mood body)")
    case None
    then show ?thesis by (simp add: post_moods_def)
  next
    case (Some m)
    with n have "m < 0 \<or> 4 < m"
      unfolding number_in_range_iff by force
    with Some show ?thesis by (auto simp: post_moods_def)
  qed
next
  show "status mood_error = 400" by (simp add: mood_error_def)
next
  assume "number_in_range (req_mood body)"
  from post_moods_in_range [OF this, of env s]
  show "status (fst (post_moods env body s)) \<noteq> 400" by auto
qed

theorem post_moods_rejects_mood_witness:
  "\<not> number_in_range (req_mood five_body)
   \<and> post_moods sample_env five_body four_day_store = (mood_error, four_day_store, [])
   \<and> status mood_error = 400
   \<and> number_in_range (req_mood half_body)
   \<and> status (fst (post_moods sample_env half_body four_day_store)) \<noteq> 400"
proof -
  have a: "\<not> number_in_range (req_mood five_body)"
    by (simp add: number_in_range_def five_body_def)
  have b: "number_in_range (req_mood half_body)"
    by (simp add: number_in_range_def half_body_def)
  from a b post_moods_rejects_mood [of five_body sample_env four_day_store]
    post_moods_rejects_mood [of half_body sample_env four_day_store]
  show ?thesis by simp
qed

lemma history_store:
  "run history empty_store =
     \<lparr>entries = [\<lparr>entry_id = 1, mood = 4, timestamp = 1715342400000,
                   note' = Some (js ''sunny day''), song = None\<rparr>],
      next_id = 2\<rparr>"
  by code_simp

lemma post_moods_ai_failure:
  assumes "post_moods env body s = (r, s', cs)" and "AiGenerate \<in> set cs" and "ai_reply env = None"
  shows "\<exists>e. r = MoodCreated e None \<and> status r = 200 \<and> entries s' = entries s @ [e]"
  using assms
  by (auto simp: post_moods_def save_def Let_def mood_error_def create_error_def entry_insight_def
      split: option.splits sum.splits if_splits prod.splits)

text \<open>
  C5: in every store reached by a sequence of creates and deletes, when the handler of
  POST /api/moods has called the AI service and the call has failed, the answer is still a
  success (status 200) that carries the saved entry and a null insight, and the entry is in
  the store, appended to what was there.
\<close>

theorem post_moods_survives_ai_failure:
  assumes "post_moods env body (run rs empty_store) = (r, s', cs)"
    and "AiGenerate \<in> set cs" and "ai_reply env = None"
  shows "\<exists>e. r = MoodCreated e None \<and> status r = 200
           \<and> entries s' = entries (run rs empty_store) @ [e]"
  using assms by (rule post_moods_ai_failure)

lemma ai_down_post:
  "post_moods ai_down_env happy_body (run history empty_store) =
     (MoodCreated \<lparr>entry_id = 2, mood = 4, timestamp = 1715342400000,
                   note' = Some (js ''sunny day''), song = None\<rparr> None,
      \<lparr>entries = [\<lparr>entry_id = 1, mood = 4, timestamp = 1715342400000,
                    note' = Some (js ''sunny day''), song = None\<rparr>,
                  \<lparr>entry_id = 2, mood = 4, timestamp = 1715342400000,
                    note' = Some (js ''sunny day''), song = None\<rparr>],
       next_id = 3\<rparr>,
      [AiGenerate])"
  by code_simp

theorem post_moods_survives_ai_failure_witness:
  "\<exists>e. MoodCreated \<lparr>entry_id = 2, mood = 4, timestamp = 1715342400000,
                     note' = Some (js ''sunny day''), song = None\<rparr> None = MoodCreated e None
       \<and> status (MoodCreated \<lparr>entry_id = 2, mood = 4, timestamp = 1715342400000,
                     note' = Some (js ''sunny day''), song = None\<rparr> None) = 200
       \<and> entries \<lparr>entries = [\<lparr>entry_id = 1, mood = 4, timestamp = 1715342400000,
                                note' = Some (js ''sunny day''), song = None\<rparr>,
                              \<lparr>entry_id = 2, mood = 4, timestamp = 1715342400000,
                                note' = Some (js ''sunny day''), song = None\<rparr>],
                   next_id = 3\<rparr>
         = entries (run history empty_store) @ [e]"
proof -
  have a: "AiGenerate \<in> set [AiGenerate]" by simp
  have b: "ai_reply ai_down_env = None" by (simp add: ai_down_env_def sample_env_def)
  from post_moods_survives_ai_failure [OF ai_down_post a b] show ?thesis .
qed

section \<open>Listing entries\<close>

lemma descending_sort_desc: "descending (sort_desc es)"
proof -
  have "sorted (map (\<lambda>e. - timestamp e) (sort_key (\<lambda>e. - timestamp e) es))"
    by (rule sorted_sort_key)
  then show ?thesis
    by (simp add: descending_def sort_desc_def sorted_map)
qed

lemma get_moods_any_store:
  "(db_up env \<longrightarrow>
      (\<exists>es. get_moods env s = MoodList es \<and> length es \<le> 50 \<and> descending es
            \<and> set es \<subseteq> set (entries s)))
   \<and> (\<not> db_up env \<longrightarrow> get_moods env s = ErrorBody 500 ''Failed to fetch mood entries'')"
proof -
  have "descending (take 50 (sort_desc (entries s)))"
    using descending_sort_desc [of "entries s"] unfolding descending_def by (rule sorted_wrt_take)
  moreover have "set (take 50 (sort_desc (entries s))) \<subseteq> set (entries s)"
    using set_take_subset [of 50 "sort_desc (entries s)"] by (simp add: sort_desc_def)
  ultimately show ?thesis
    by (simp add: get_moods_def find_all_def)
qed

text \<open>
  C6: after every sequence of creates and deletes, GET /api/moods answers with at most 50
  entries of the store, ordered by descending timestamp; when the database does not answer
  it returns no entry at all, but the error 500.
\<close>

theorem get_moods_bounded_sorted:
  "(db_up env \<longrightarrow>
      (\<exists>es. get_moods env (run rs empty_store) = MoodList es \<and> length es \<le> 50 \<and> descending es
            \<and> set es \<subseteq> set (entries (run rs empty_store))))
   \<and> (\<not> db_up env \<longrightarrow>
        get_moods env (run rs empty_store) = ErrorBody 500 ''Failed to fetch mood entries'')"
  by (rule get_moods_any_store)

theorem get_moods_bounded_sorted_witness:
  "db_up sample_env
   \<and> (\<exists>es. get_moods sample_env (run history empty_store) = MoodList es \<and> length es \<le> 50
           \<and> descending es \<and> set es \<subseteq> set (entries (run history empty_store)))
   \<and> \<not> db_up db_down_env
   \<and> get_moods db_down_env (run history empty_store) = ErrorBody 500 ''Failed to fetch mood entries''"
proof -
  have a: "db_up sample_env" by (simp add: sample_env_def)
  have b: "\<not> db_up db_down_env" by (simp add: db_down_env_def)
  from a b get_moods_bounded_sorted [of sample_env history]
    get_moods_bounded_sorted [of db_down_env history]
  show ?thesis by simp
qed

text \<open>The limit at work: of 51 entries the 50 most recent are returned.\<close>

lemma get_moods_drops_oldest:
  "get_moods sample_env \<lparr>entries = map (\<lambda>i. entry_at i 2 (int i)) [0..<51], next_id = 51\<rparr>
     = MoodList (map (\<lambda>i. entry_at i 2 (int i)) (rev [1..<51]))"
  by code_simp

section \<open>Stored texts\<close>

lemma handle_text_ok:
  assumes "\<forall>e\<in>set (entries s). text_ok e"
  shows "\<forall>e\<in>set (entries (handle r s)). text_ok e"
proof (cases r)
  case (Pair env q)
  show ?thesis
  proof (cases q)
    case (PostMood body)
    from post_moods_entries [of env body s] show ?thesis
    proof
      assume "entries (fst (snd (post_moods env body s))) = entries s"
      with assms Pair PostMood show ?thesis by simp
    next
      assume "\<exists>e ai cs. post_moods env body s = (MoodCreated e ai, fst (snd (post_moods env body s)), cs)"
      then obtain e ai cs where
        c: "post_moods env body s = (MoodCreated e ai, fst (snd (post_moods env body s)), cs)"
        by blast
      from post_moods_created [OF c] have
        n: "trim_or_undefined (req_note body) = Inr (note' e)" and
        g: "trim_or_undefined (req_song body) = Inr (song e)" and
        es: "entries (fst (snd (post_moods env body s))) = entries s @ [e]"
        by auto
      have "text_ok e"
        using trim_or_undefined_nonempty n g unfolding text_ok_def by metis
      with assms es Pair PostMood show ?thesis by auto
    qed
  next
    case (DeleteMood p)
    with assms Pair delete_mood_entries [of env p s] show ?thesis by auto
  qed
qed

lemma run_text_ok:
  "\<forall>e\<in>set (entries s). text_ok e \<Longrightarrow> \<forall>e\<in>set (entries (run rs s)). text_ok e"
proof (induction rs arbitrary: s)
  case Nil
  then show ?case by simp
next
  case (Cons r rs)
  from handle_text_ok [OF Cons.prems] have "\<forall>e\<in>set (entries (handle r s)). text_ok e" .
  from Cons.IH [OF this] show ?case by simp
qed

text \<open>
  C9: when POST /api/moods creates an entry, a note or song that is absent, empty or made of
  white space only is stored as no value; and in every store reached by creates and deletes
  from the empty store, no entry has the empty string as its note or its song: each is
  absent or a non-empty string.
\<close>

theorem stored_text_never_empty:
  "(post_moods env body s = (MoodCreated e ai, s', cs) \<longrightarrow>
      (blank (req_note body) \<longrightarrow> note' e = None) \<and> (blank (req_song body) \<longrightarrow> song e = None))
   \<and> (\<forall>x\<in>set (entries (run rs empty_store)). note' x \<noteq> Some [] \<and> song x \<noteq> Some [])"
proof (intro conjI impI)
  assume c: "post_moods env body s = (MoodCreated e ai, s', cs)"
  { assume "blank (req_note body)"
    with post_moods_created [OF c] trim_or_undefined_blank [of "req_note body"]
    show "note' e = None" by auto }
  { assume "blank (req_song body)"
    with post_moods_created [OF c] trim_or_undefined_blank [of "req_song body"]
    show "song e = None" by auto }
next
  have "\<forall>e\<in>set (entries empty_store). text_ok e" by (simp add: empty_store_def)
  from run_text_ok [OF this]
  show "\<forall>x\<in>set (entries (run rs empty_store)). note' x \<noteq> Some [] \<and> song x \<noteq> Some []"
    by (simp add: text_ok_def)
qed

lemma spaces_post:
  "post_moods sample_env spaces_body empty_store =
     (MoodCreated \<lparr>entry_id = 0, mood = 3, timestamp = 1715342400000, note' = None, song = None\<rparr> None,
      \<lparr>entries = [\<lparr>entry_id = 0, mood = 3, timestamp = 1715342400000, note' = None, song = None\<rparr>],
       next_id = 1\<rparr>, [])"
  by code_simp

theorem stored_text_never_empty_witness:
  "blank (req_note spaces_body) \<and> blank (req_song spaces_body)
   \<and> note' \<lparr>entry_id = 0, mood = 3, timestamp = 1715342400000, note' = None, song = None\<rparr> = None
   \<and> song \<lparr>entry_id = 0, mood = 3, timestamp = 1715342400000, note' = None, song = None\<rparr> = None
   \<and> note' (hd (entries (run history empty_store))) \<noteq> Some []
   \<and> song (hd (entries (run history empty_store))) \<noteq> Some []"
proof -
  have a: "blank (req_note spaces_body)" by code_simp
  have b: "blank (req_song spaces_body)" by code_simp
  have c: "hd (entries (run history empty_store)) \<in> set (entries (run history empty_store))"
    by (simp add: history_store)
  from a b c spaces_post
    stored_text_never_empty [of sample_env spaces_body empty_store
      "\<lparr>entry_id = 0, mood = 3, timestamp = 1715342400000, note' = None, song = None\<rparr>" None
      "\<lparr>entries = [\<lparr>entry_id = 0, mood = 3, timestamp = 1715342400000, note' = None, song = None\<rparr>],
        next_id = 1\<rparr>" "[]" history]
  show ?thesis by blast
qed

section \<open>Daily averages\<close>

lemma foldl_plus: "foldl (+) (a::rat) xs = a + sum_list xs"
  by (induction xs arbitrary: a) (simp_all add: add.assoc)

lemma foldl_plus_key: "foldl (\<lambda>sum d. sum + f d) (a::rat) xs = a + sum_list (map f xs)"
  by (induction xs arbitrary: a) (simp_all add: add.assoc)

lemma push_mood_keys:
  "map fst (push_mood k m g) = (if k \<in> fst ` set g then map fst g else map fst g @ [k])"
  by (induction k m g rule: push_mood.induct) auto

lemma push_mood_lookup:
  "lookup_moods (push_mood k m g) d = lookup_moods g d @ (if d = k then [m] else [])"
  by (induction k m g rule: push_mood.induct) (auto simp: lookup_moods_def)

lemma push_mood_distinct: "distinct (map fst g) \<Longrightarrow> distinct (map fst (push_mood k m g))"
  by (simp add: push_mood_keys)

lemma dailyMoods_foldl: "dailyMoods es = foldl group_step [] es"
  by (simp add: dailyMoods_def group_step_def[abs_def])

lemma foldl_group_distinct:
  "distinct (map fst g) \<Longrightarrow> distinct (map fst (foldl group_step g es))"
  by (induction es arbitrary: g) (simp_all add: group_step_def push_mood_distinct)

lemma foldl_group_keys:
  "fst ` set (foldl group_step g es) = fst ` set g \<union> dateKey ` set es"
proof (induction es arbitrary: g)
  case Nil
  show ?case by simp
next
  case (Cons e es)
  have "set (map fst (group_step g e)) = insert (dateKey e) (set (map fst g))"
    unfolding group_step_def push_mood_keys by auto
  then have "fst ` set (group_step g e) = insert (dateKey e) (fst ` set g)"
    by simp
  with Cons.IH [of "group_step g e"] show ?case by auto
qed

lemma foldl_group_lookup:
  "lookup_moods (foldl group_step g es) d = lookup_moods g d @ moods_on es d"
  by (induction es arbitrary: g) (auto simp: group_step_def push_mood_lookup moods_on_def)

lemma dailyMoods_distinct: "distinct (map fst (dailyMoods es))"
  by (simp add: dailyMoods_foldl foldl_group_distinct)

lemma dailyMoods_keys: "fst ` set (dailyMoods es) = dateKey ` set es"
  by (simp add: dailyMoods_foldl foldl_group_keys)

lemma dailyMoods_group:
  assumes "p \<in> set (dailyMoods es)"
  shows "snd p = moods_on es (fst p)"
proof -
  from assms dailyMoods_distinct [of es] have "map_of (dailyMoods es) (fst p) = Some (snd p)"
    by simp
  then have "lookup_moods (dailyMoods es) (fst p) = snd p"
    by (simp add: lookup_moods_def)
  moreover have "lookup_moods (dailyMoods es) (fst p) = lookup_moods [] (fst p) @ moods_on es (fst p)"
    by (simp only: dailyMoods_foldl foldl_group_lookup)
  moreover have "lookup_moods [] (fst p) = []"
    by (simp add: lookup_moods_def)
  ultimately show ?thesis by simp
qed

lemma daily_row_group:
  assumes "p \<in> set (dailyMoods es)"
  shows "daily_row p = \<lparr>date = fst p, averageMood = mean (moods_on es (fst p)),
                         entryCount = length (moods_on es (fst p))\<rparr>"
  using dailyMoods_group [OF assms] by (simp add: daily_row_def mean_def foldl_plus)

lemma dates_of_rows: "map date (map daily_row g) = map fst g"
  by (induction g) (simp_all add: daily_row_def)

lemma dates_daily_averages:
  "mset (map date (daily_averages_of es)) = mset (map fst (dailyMoods es))"
proof -
  have "mset (map date (daily_averages_of es)) = mset (map date (map daily_row (dailyMoods es)))"
    unfolding daily_averages_of_def by (simp only: mset_map mset_sort)
  then show ?thesis by (simp only: dates_of_rows)
qed

lemma length_daily_averages: "length (daily_averages_of es) = card (dateKey ` set es)"
proof -
  have "length (daily_averages_of es) = length (map fst (dailyMoods es))"
    by (simp add: daily_averages_of_def)
  also have "\<dots> = card (set (map fst (dailyMoods es)))"
    using dailyMoods_distinct [of es] by (simp only: distinct_card)
  also have "\<dots> = card (dateKey ` set es)"
    by (simp add: dailyMoods_keys)
  finally show ?thesis .
qed

lemma sum_daily_averages:
  "sum_list (map averageMood (daily_averages_of es)) = (\<Sum>d\<in>dateKey ` set es. mean (moods_on es d))"
proof -
  have "sum_list (map averageMood (daily_averages_of es))
        = sum_mset (mset (map averageMood (daily_averages_of es)))"
    by (simp only: sum_mset_sum_list)
  also have "\<dots> = sum_mset (mset (map averageMood (map daily_row (dailyMoods es))))"
    unfolding daily_averages_of_def by (simp only: mset_map mset_sort)
  also have "\<dots> = sum_list (map averageMood (map daily_row (dailyMoods es)))"
    by (simp only: sum_mset_sum_list)
  also have "map averageMood (map daily_row (dailyMoods es))
             = map (\<lambda>d. mean (moods_on es d)) (map fst (dailyMoods es))"
    by (simp add: daily_row_group)
  also have "sum_list (map (\<lambda>d. mean (moods_on es d)) (map fst (dailyMoods es)))
             = (\<Sum>d\<in>set (map fst (dailyMoods es)). mean (moods_on es d))"
    using dailyMoods_distinct [of es] by (rule sum_list_distinct_conv_sum_set)
  finally show ?thesis by (simp add: dailyMoods_keys)
qed

lemma overall_average_mean:
  "overall_average (daily_averages_of es) = mean_of_daily_means es"
  by (simp add: overall_average_def foldl_plus_key sum_daily_averages length_daily_averages
      mean_of_daily_means_def)

lemma moods_on_sort_desc: "mset (moods_on (sort_desc es) d) = mset (moods_on es d)"
  by (simp add: moods_on_def sort_desc_def)

lemma mean_mset: "mset xs = mset ys \<Longrightarrow> mean xs = mean ys"
  by (metis mean_def mset_eq_length sum_mset_sum_list)

lemma mean_of_daily_means_sort_desc: "mean_of_daily_means (sort_desc es) = mean_of_daily_means es"
proof -
  have "set (sort_desc es) = set es" by (simp add: sort_desc_def)
  moreover have "\<And>d. mean (moods_on (sort_desc es) d) = mean (moods_on es d)"
    by (rule mean_mset) (rule moods_on_sort_desc)
  ultimately show ?thesis by (simp add: mean_of_daily_means_def)
qed

lemma get_insights_nonempty:
  assumes "db_up env" and "entries s \<noteq> []"
  shows "\<exists>tc. get_insights parse env s =
     (InsightsBody
        \<lparr>texts = fst tc,
         overallAverage = overall_average (daily_averages_of (sort_desc (entries s))),
         streak = streak_loop env 0 (daily_averages_of (sort_desc (entries s))),
         totalDays = length (daily_averages_of (sort_desc (entries s))),
         dailyAverages = take 30 (daily_averages_of (sort_desc (entries s)))\<rparr>,
      snd tc)"
proof -
  have "length (sort_desc (entries s)) = length (entries s)"
    by (simp add: sort_desc_def)
  with assms(2) have "sort_desc (entries s) \<noteq> []"
    by (metis length_0_conv)
  with assms(1) show ?thesis
    by (simp add: get_insights_def find_all_def Let_def)
qed

lemma two_entries_rows:
  assumes "dateKey e1 = dateKey e2" and "mood e1 + mood e2 = 4"
  shows "daily_averages_of (sort_desc [e1, e2]) = [\<lparr>date = dateKey e1, averageMood = 2, entryCount = 2\<rparr>]"
  using assms
  by (simp add: sort_desc_def dailyMoods_def daily_averages_of_def daily_row_def add.commute)

lemma uneven_averages:
  "overall_average (daily_averages_of (sort_desc (entries uneven_store))) = 1
   \<and> mean (map mood (entries uneven_store)) = 4 / 3"
  by code_simp

section \<open>Insights\<close>

text \<open>
  C10: when the store holds no entry (and the database answers), GET /api/insights answers
  with status 200 and the fixed starting payload: average mood 2, streak 0, no day, no daily
  average, one starter insight and one starter recommendation; no gateway is called.
\<close>

theorem insights_empty_store:
  assumes "db_up env" and "entries s = []"
  shows "get_insights parse env s =
     (InsightsBody
        \<lparr>texts = Starter [''Start tracking your mood to get personalized insights!'']
                          [''Record your first mood entry to begin your journey.''],
         overallAverage = 2, streak = 0, totalDays = 0, dailyAverages = []\<rparr>, [])
     \<and> status (fst (get_insights parse env s)) = 200"
  using assms by (simp add: get_insights_def find_all_def sort_desc_def starter_payload_def)

theorem insights_empty_store_witness:
  "db_up ai_json_env \<and> entries empty_store = []
   \<and> get_insights parse_braces ai_json_env empty_store =
     (InsightsBody
        \<lparr>texts = Starter [''Start tracking your mood to get personalized insights!'']
                          [''Record your first mood entry to begin your journey.''],
         overallAverage = 2, streak = 0, totalDays = 0, dailyAverages = []\<rparr>, [])
   \<and> status (fst (get_insights parse_braces ai_json_env empty_store)) = 200"
proof -
  have a: "db_up ai_json_env" by (simp add: ai_json_env_def sample_env_def)
  have b: "entries empty_store = []" by (simp add: empty_store_def)
  from a b insights_empty_store [OF a b, of parse_braces] show ?thesis by simp
qed

text \<open>
  C4: with exactly two entries in the store, on the same calendar date (the UTC date of the
  timestamp) and with moods 1 and 3, GET /api/insights gives one daily-average row, of
  average 2 and entry count 2, and the overall average 2. For every non-empty store the
  overall average is the mean over the dates of the mean mood of each date; it is not the
  mean of the entries: with one entry of mood 0 on one day and moods 0 and 4 on the next,
  the answer is 1 and the mean of the three entries is 4/3.
\<close>

theorem insights_daily_averaging:
  assumes "db_up env"
  shows "(entries s = [e1, e2] \<and> dateKey e1 = dateKey e2
            \<and> (mood e1 = 1 \<and> mood e2 = 3 \<or> mood e1 = 3 \<and> mood e2 = 1) \<longrightarrow>
          (\<exists>p cs. get_insights parse env s = (InsightsBody p, cs)
             \<and> dailyAverages p = [\<lparr>date = dateKey e1, averageMood = 2, entryCount = 2\<rparr>]
             \<and> totalDays p = 1 \<and> overallAverage p = 2))
     \<and> (entries s \<noteq> [] \<longrightarrow>
          (\<exists>p cs. get_insights parse env s = (InsightsBody p, cs)
             \<and> overallAverage p = mean_of_daily_means (entries s)))
     \<and> (\<exists>p cs. get_insights parse env uneven_store = (InsightsBody p, cs)
           \<and> overallAverage p = 1 \<and> mean (map mood (entries uneven_store)) = 4 / 3)"
proof (intro conjI impI)
  assume h: "entries s = [e1, e2] \<and> dateKey e1 = dateKey e2
            \<and> (mood e1 = 1 \<and> mood e2 = 3 \<or> mood e1 = 3 \<and> mood e2 = 1)"
  then have "mood e1 + mood e2 = 4" by auto
  with h have rows: "daily_averages_of (sort_desc (entries s))
                     = [\<lparr>date = dateKey e1, averageMood = 2, entryCount = 2\<rparr>]"
    by (simp add: two_entries_rows)
  from h have "entries s \<noteq> []" by simp
  from get_insights_nonempty [OF assms this, of parse]
  show "\<exists>p cs. get_insights parse env s = (InsightsBody p, cs)
             \<and> dailyAverages p = [\<lparr>date = dateKey e1, averageMood = 2, entryCount = 2\<rparr>]
             \<and> totalDays p = 1 \<and> overallAverage p = 2"
    unfolding rows by (auto simp: overall_average_def)
next
  assume "entries s \<noteq> []"
  from get_insights_nonempty [OF assms this, of parse]
  show "\<exists>p cs. get_insights parse env s = (InsightsBody p, cs)
             \<and> overallAverage p = mean_of_daily_means (entries s)"
    by (auto simp: overall_average_mean mean_of_daily_means_sort_desc)
next
  have "entries uneven_store \<noteq> []" by (simp add: uneven_store_def)
  from get_insights_nonempty [OF assms this, of parse] uneven_averages
  show "\<exists>p cs. get_insights parse env uneven_store = (InsightsBody p, cs)
           \<and> overallAverage p = 1 \<and> mean (map mood (entries uneven_store)) = 4 / 3"
    by auto
qed

theorem insights_daily_averaging_witness:
  "db_up sample_env
   \<and> entries same_day_store = [entry_at 0 1 1715332500000, entry_at 1 3 1715322600000]
   \<and> dateKey (entry_at 0 1 1715332500000) = dateKey (entry_at 1 3 1715322600000)
   \<and> mood (entry_at 0 1 1715332500000) = 1 \<and> mood (entry_at 1 3 1715322600000) = 3
   \<and> (\<exists>p cs. get_insights no_parse sample_env same_day_store = (InsightsBody p, cs)
         \<and> dailyAverages p = [\<lparr>date = 19853, averageMood = 2, entryCount = 2\<rparr>]
         \<and> totalDays p = 1 \<and> overallAverage p = 2)
   \<and> entries same_day_store \<noteq> []
   \<and> (\<exists>p cs. get_insights no_parse sample_env same_day_store = (InsightsBody p, cs)
         \<and> overallAverage p = mean_of_daily_means (entries same_day_store))"
proof -
  have a: "db_up sample_env" by (simp add: sample_env_def)
  have b: "entries same_day_store = [entry_at 0 1 1715332500000, entry_at 1 3 1715322600000]"
    by (simp add: same_day_store_def)
  have c: "dateKey (entry_at 0 1 1715332500000) = 19853"
    by code_simp
  have d: "dateKey (entry_at 1 3 1715322600000) = 19853"
    by code_simp
  have e: "mood (entry_at 0 1 1715332500000) = 1 \<and> mood (entry_at 1 3 1715322600000) = 3"
    by (simp add: entry_at_def)
  from a b c d e
    insights_daily_averaging [OF a, of same_day_store "entry_at 0 1 1715332500000"
      "entry_at 1 3 1715322600000" no_parse]
  show ?thesis by simp
qed

section \<open>The streak\<close>

lemma streak_zero_off_utc:
  assumes "tz_offset env mod msPerDay \<noteq> 0"
  shows "streak_loop env 0 ds = 0"
proof (cases ds)
  case Nil
  then show ?thesis by simp
next
  case (Cons d rest)
  have "date d * msPerDay \<noteq> expectedDate env 0"
  proof
    assume "date d * msPerDay = expectedDate env 0"
    then have "tz_offset env = ((now env + tz_offset env) div msPerDay - date d) * msPerDay"
      by (simp add: expectedDate_def local_midnight_def algebra_simps)
    then have "msPerDay dvd tz_offset env"
      by (metis dvd_triv_right)
    with assms show False by (simp add: mod_eq_0_iff_dvd)
  qed
  with Cons show ?thesis by simp
qed

lemma descending_dates:
  fixes xs :: "int list"
  assumes "sorted (map uminus xs)" and "distinct xs" and "set xs = {T, T - 1, T - 2, T - 4}"
  shows "xs = [T, T - 1, T - 2, T - 4]"
proof -
  have "map uminus xs = [- T, 1 - T, 2 - T, 4 - T]"
  proof (rule sorted_distinct_set_unique)
    show "sorted (map uminus xs)" by (rule assms(1))
    show "distinct (map uminus xs)" using assms(2) by (simp add: distinct_map)
    show "sorted [- T, 1 - T, 2 - T, 4 - T]" by simp
    show "distinct [- T, 1 - T, 2 - T, 4 - T]" by simp
    show "set (map uminus xs) = set [- T, 1 - T, 2 - T, 4 - T]"
      using assms(3) by simp
  qed
  then have "map uminus (map uminus xs) = map uminus [- T, 1 - T, 2 - T, 4 - T]"
    by (simp only:)
  then show ?thesis by (simp add: comp_def)
qed

lemma dates_on_four_days:
  assumes "dateKey ` set es = {T, T - 1, T - 2, T - 4}"
  shows "map date (daily_averages_of es) = [T, T - 1, T - 2, T - 4]"
proof (rule descending_dates)
  have "sorted (map (\<lambda>d. - date d) (daily_averages_of es))"
    unfolding daily_averages_of_def by (rule sorted_sort_key)
  then show "sorted (map uminus (map date (daily_averages_of es)))"
    by (simp add: comp_def)
  show "distinct (map date (daily_averages_of es))"
    using dates_daily_averages [of es] dailyMoods_distinct [of es]
    by (metis mset_eq_imp_distinct_iff)
  have "set (map date (daily_averages_of es)) = set (map fst (dailyMoods es))"
    using dates_daily_averages [of es] by (rule mset_eq_setD)
  then show "set (map date (daily_averages_of es)) = {T, T - 1, T - 2, T - 4}"
    using assms by (simp add: dailyMoods_keys)
qed

lemma streak_three_utc:
  assumes "tz_offset env = 0"
    and "dateKey ` set es = {now env div msPerDay, now env div msPerDay - 1,
                            now env div msPerDay - 2, now env div msPerDay - 4}"
  shows "streak_loop env 0 (daily_averages_of es) = 3"
proof -
  from dates_on_four_days [OF assms(2)] obtain d0 d1 d2 d3 where
    ds: "daily_averages_of es = [d0, d1, d2, d3]" and
    d: "date d0 = now env div msPerDay" "date d1 = now env div msPerDay - 1"
       "date d2 = now env div msPerDay - 2" "date d3 = now env div msPerDay - 4"
    by (auto simp: map_eq_Cons_conv)
  show ?thesis
    unfolding ds using d assms(1)
    by (simp add: expectedDate_def local_midnight_def msPerDay_def algebra_simps)
qed

text \<open>
  On a server whose zone is UTC the streak is what the specification says: whatever
  the entries and their number, when their dates are exactly today and one, two and four
  days back, the streak is 3.
\<close>

lemma insights_streak_utc:
  assumes "db_up env" and "tz_offset env = 0"
    and "dateKey ` set (entries s) = {now env div msPerDay, now env div msPerDay - 1,
                                      now env div msPerDay - 2, now env div msPerDay - 4}"
  shows "\<exists>p cs. get_insights parse env s = (InsightsBody p, cs) \<and> streak p = 3"
proof -
  from assms(3) have ne: "entries s \<noteq> []" by auto
  have "set (sort_desc (entries s)) = set (entries s)" by (simp add: sort_desc_def)
  with assms(3) have "dateKey ` set (sort_desc (entries s)) =
      {now env div msPerDay, now env div msPerDay - 1, now env div msPerDay - 2,
       now env div msPerDay - 4}"
    by simp
  from streak_three_utc [OF assms(2) this] get_insights_nonempty [OF assms(1) ne, of parse]
  show ?thesis by auto
qed

text \<open>
  On a server whose zone stays at a fixed offset that is not a whole number of days away
  from UTC, the local midnight the loop expects is never the UTC midnight of a date key,
  and the streak is 0 for every store.
\<close>

lemma insights_streak_off_utc:
  assumes "db_up env" and "tz_offset env mod msPerDay \<noteq> 0" and "entries s \<noteq> []"
  shows "\<exists>p cs. get_insights parse env s = (InsightsBody p, cs) \<and> streak p = 0"
  using get_insights_nonempty [OF assms(1) assms(3), of parse] streak_zero_off_utc [OF assms(2)]
  by auto

lemma four_day_store_utc:
  "get_insights no_parse sample_env four_day_store =
     (InsightsBody
        \<lparr>texts = Templated (5 / 2) 4 3, overallAverage = 5 / 2, streak = 3, totalDays = 4,
         dailyAverages =
           [\<lparr>date = 19853, averageMood = 4, entryCount = 1\<rparr>,
            \<lparr>date = 19852, averageMood = 1, entryCount = 1\<rparr>,
            \<lparr>date = 19851, averageMood = 3, entryCount = 1\<rparr>,
            \<lparr>date = 19849, averageMood = 2, entryCount = 1\<rparr>]\<rparr>, [])"
  by code_simp

text \<open>
  C3: for a store with entries exactly on the days today, today-1, today-2 and today-4 the
  streak of GET /api/insights is 3, the consecutive days from today backward up to the first
  gap. This does not hold of the code on a server outside UTC. In Asia/Kolkata, at 17:30 local
  time of 10 May 2024, with entries at noon local time of 10, 9, 8 and 6 May (today and one,
  two and four days back, by the local calendar and by the UTC calendar alike), the streak
  that GET /api/insights computes is 0, not 3: the date keys are UTC dates read back as UTC
  midnights, and they are compared with midnights of the local day.
\<close>

theorem streak_lost_in_kolkata:
  "(now kolkata_env + tz_offset kolkata_env) div msPerDay = 19853
   \<and> now kolkata_env div msPerDay = 19853
   \<and> map (\<lambda>e. (timestamp e + tz_offset kolkata_env) div msPerDay) (entries four_day_store)
       = [19849, 19851, 19852, 19853]
   \<and> map dateKey (entries four_day_store) = [19849, 19851, 19852, 19853]
   \<and> get_insights no_parse kolkata_env four_day_store =
     (InsightsBody
        \<lparr>texts = Templated (5 / 2) 4 0, overallAverage = 5 / 2, streak = 0, totalDays = 4,
         dailyAverages =
           [\<lparr>date = 19853, averageMood = 4, entryCount = 1\<rparr>,
            \<lparr>date = 19852, averageMood = 1, entryCount = 1\<rparr>,
            \<lparr>date = 19851, averageMood = 3, entryCount = 1\<rparr>,
            \<lparr>date = 19849, averageMood = 2, entryCount = 1\<rparr>]\<rparr>, [])"
  by code_simp

section \<open>Playlist references\<close>

lemma match_here_iff: "match_here lit s \<noteq> None \<longleftrightarrow> starts_with_id lit s"
proof
  assume "match_here lit s \<noteq> None"
  then have p: "prefix lit s" and t: "takeWhile isAlnum (drop (length lit) s) \<noteq> []"
    by (auto simp: match_here_def split: if_splits)
  from p have "s = lit @ drop (length lit) s"
    by (auto simp: prefix_def)
  then have "s = lit @ takeWhile isAlnum (drop (length lit) s) @ dropWhile isAlnum (drop (length lit) s)"
    by simp
  moreover have "list_all isAlnum (takeWhile isAlnum (drop (length lit) s))"
    by (auto simp: list_all_iff dest: set_takeWhileD)
  ultimately show "starts_with_id lit s"
    unfolding starts_with_id_def using t by blast
next
  assume "starts_with_id lit s"
  then obtain ident rest where s: "s = lit @ ident @ rest" and n: "ident \<noteq> []"
    and a: "list_all isAlnum ident"
    unfolding starts_with_id_def by blast
  from n a obtain c cs where "ident = c # cs" and "isAlnum c"
    by (cases ident) auto
  with s have "takeWhile isAlnum (drop (length lit) s) \<noteq> []"
    by simp
  moreover from s have "prefix lit s" by simp
  ultimately show "match_here lit s \<noteq> None"
    by (simp add: match_here_def)
qed

lemma contains_id_Nil: "contains_id lit [] = starts_with_id lit []"
  by (auto simp: contains_id_def starts_with_id_def)

lemma contains_id_Cons:
  "contains_id lit (c # cs) \<longleftrightarrow> starts_with_id lit (c # cs) \<or> contains_id lit cs"
proof
  assume "contains_id lit (c # cs)"
  then obtain pre ident rest where s: "c # cs = pre @ lit @ ident @ rest"
    and n: "ident \<noteq> []" and a: "list_all isAlnum ident"
    unfolding contains_id_def by blast
  show "starts_with_id lit (c # cs) \<or> contains_id lit cs"
  proof (cases pre)
    case Nil
    with s n a show ?thesis unfolding starts_with_id_def by auto
  next
    case (Cons p ps)
    with s have "cs = ps @ lit @ ident @ rest" by simp
    with n a show ?thesis unfolding contains_id_def by blast
  qed
next
  assume "starts_with_id lit (c # cs) \<or> contains_id lit cs"
  then show "contains_id lit (c # cs)"
  proof
    assume "starts_with_id lit (c # cs)"
    then obtain ident rest where "c # cs = [] @ lit @ ident @ rest" "ident \<noteq> []" "list_all isAlnum ident"
      unfolding starts_with_id_def by auto
    then show ?thesis unfolding contains_id_def by blast
  next
    assume "contains_id lit cs"
    then obtain pre ident rest where "cs = pre @ lit @ ident @ rest" "ident \<noteq> []" "list_all isAlnum ident"
      unfolding contains_id_def by blast
    then have "c # cs = (c # pre) @ lit @ ident @ rest" by simp
    with \<open>ident \<noteq> []\<close> \<open>list_all isAlnum ident\<close> show ?thesis unfolding contains_id_def by blast
  qed
qed

lemma search_iff: "search lit s \<noteq> None \<longleftrightarrow> contains_id lit s"
proof (induction s)
  case Nil
  show ?case using match_here_iff [of lit "[]"] by (simp add: contains_id_Nil)
next
  case (Cons c cs)
  show ?case
  proof (cases "match_here lit (c # cs)")
    case None
    with match_here_iff [of lit "c # cs"] have "\<not> starts_with_id lit (c # cs)" by simp
    with None Cons.IH show ?thesis by (simp add: contains_id_Cons)
  next
    case (Some g)
    with match_here_iff [of lit "c # cs"] have "starts_with_id lit (c # cs)" by simp
    with Some show ?thesis by (simp add: contains_id_Cons)
  qed
qed

lemma match_whole_iff: "match_whole s \<noteq> None \<longleftrightarrow> bare_id_form s"
  by (simp add: match_whole_def bare_id_form_def)

lemma extractPlaylistId_iff: "extractPlaylistId s \<noteq> None \<longleftrightarrow> accepted_format s"
proof -
  have "extractPlaylistId s \<noteq> None \<longleftrightarrow>
          search (js ''spotify:playlist:'') s \<noteq> None
          \<or> search (js ''open.spotify.com/playlist/'') s \<noteq> None
          \<or> match_whole s \<noteq> None"
    by (auto simp: extractPlaylistId_def patterns_def split: option.splits)
  then show ?thesis
    by (simp only: search_iff match_whole_iff accepted_format_def uri_form_def web_link_form_def)
qed

text \<open>What the three patterns capture.\<close>

lemma extractPlaylistId_examples:
  "extractPlaylistId (js ''https://open.spotify.com/playlist/37i9dQZF1DXcBWIGoYBM5M?si=abc'')
     = Some (js ''37i9dQZF1DXcBWIGoYBM5M'')
   \<and> extractPlaylistId (js ''spotify:playlist:37i9dQZF1DXcBWIGoYBM5M'') = Some (js ''37i9dQZF1DXcBWIGoYBM5M'')
   \<and> extractPlaylistId (js ''37i9dQZF1DXcBWIGoYBM5M'') = Some (js ''37i9dQZF1DXcBWIGoYBM5M'')"
  by code_simp

lemma not_a_reference: "extractPlaylistId (js ''my favourite songs'') = None"
  by code_simp

lemma empty_reference: "extractPlaylistId [] = None"
  by code_simp

section \<open>Playlist analysis\<close>

text \<open>
  C8: for every input string of the \<open>spotifyUrl\<close> field that has none of the three
  accepted formats, \<open>extractPlaylistId\<close> returns null, and the handler answers the request
  that carries this URL with 400, without any call to the catalog or to the AI service. A
  request carries a URL or a track list, not both: the request here has the URL and no
  track list, and the answer is the invalid-URL error, or for the empty string, which the
  handler takes for no URL, the error of a request with neither URL nor tracks. For a
  non-empty string the same holds whatever track list comes with it.
\<close>

theorem unparseable_url_rejected:
  assumes "\<not> accepted_format url"
  shows "extractPlaylistId url = None
     \<and> post_playlist_analyze parse env \<lparr>spotifyUrl = Some url, tracks = None\<rparr>
         = (if url = [] then no_input_error else invalid_url_error, [])
     \<and> status (fst (post_playlist_analyze parse env \<lparr>spotifyUrl = Some url, tracks = None\<rparr>)) = 400
     \<and> (url \<noteq> [] \<longrightarrow>
          post_playlist_analyze parse env \<lparr>spotifyUrl = Some url, tracks = ts\<rparr> = (invalid_url_error, []))
     \<and> (url = [] \<and> (ts = None \<or> ts = Some []) \<longrightarrow>
          post_playlist_analyze parse env \<lparr>spotifyUrl = Some url, tracks = ts\<rparr> = (no_input_error, []))
     \<and> status invalid_url_error = 400 \<and> status no_input_error = 400"
proof -
  from assms extractPlaylistId_iff [of url] have n: "extractPlaylistId url = None" by simp
  then show ?thesis
    by (auto simp: post_playlist_analyze_def catalog_path_def manual_path_def truthy_def
        invalid_url_error_def no_input_error_def)
qed

theorem unparseable_url_rejected_witness:
  "\<not> accepted_format (js ''my favourite songs'')
   \<and> js ''my favourite songs'' \<noteq> []
   \<and> extractPlaylistId (js ''my favourite songs'') = None
   \<and> post_playlist_analyze parse_braces ai_json_env
        \<lparr>spotifyUrl = Some (js ''my favourite songs''), tracks = None\<rparr>
      = (invalid_url_error, [])
   \<and> post_playlist_analyze parse_braces ai_json_env
        \<lparr>spotifyUrl = Some (js ''my favourite songs''), tracks = Some two_tracks\<rparr>
      = (invalid_url_error, [])
   \<and> \<not> accepted_format []
   \<and> extractPlaylistId [] = None
   \<and> post_playlist_analyze parse_braces ai_json_env \<lparr>spotifyUrl = Some [], tracks = None\<rparr>
      = (no_input_error, [])
   \<and> status invalid_url_error = 400 \<and> status no_input_error = 400"
proof -
  from not_a_reference have a: "\<not> accepted_format (js ''my favourite songs'')"
    using extractPlaylistId_iff [of "js ''my favourite songs''"] by simp
  from empty_reference have a': "\<not> accepted_format []"
    using extractPlaylistId_iff [of "[]"] by simp
  have b: "js ''my favourite songs'' \<noteq> []" by (simp add: js_def)
  from a a' b unparseable_url_rejected [OF a, of parse_braces ai_json_env "Some two_tracks"]
    unparseable_url_rejected [OF a', of parse_braces ai_json_env None]
  show ?thesis by simp
qed

text \<open>
  C2, as the specification states it, fails: the handler asks for a non-empty track list
  only, and with two manual tracks and no catalog URL it calls the AI service.
\<close>

theorem two_tracks_reach_ai:
  "length two_tracks < 3 \<and>
   post_playlist_analyze parse_braces ai_json_env \<lparr>spotifyUrl = None, tracks = Some two_tracks\<rparr>
    = (PersonalityProfile (JObj [])
         \<lparr>playlistName = js ''Manual Playlist'', totalTracks = 2, analyzedTracks = 2\<rparr>,
       [AiGenerate])"
  by code_simp

text \<open>
  C2, amended: a request without catalog URL whose manual track list is missing or empty is
  rejected by the handler with 400 before any gateway call. The minimum of three tracks is
  kept by the form of the frontend: with fewer than three complete tracks (title and artist
  not blank) it shows an error and sends nothing, and every request it sends for manual
  tracks carries at least three tracks and no URL.
\<close>

theorem manual_tracks_rejected:
  "(\<not> truthy (spotifyUrl body) \<and> (tracks body = None \<or> tracks body = Some []) \<longrightarrow>
      post_playlist_analyze parse env body = (no_input_error, []) \<and> status no_input_error = 400)
   \<and> (length (filter (\<lambda>track. trim (title track) \<noteq> [] \<and> trim (artist track) \<noteq> []) ts) < 3 \<longrightarrow>
      analyzePersonality False url ts
        = ShowError ''Please add at least 3 complete songs (title and artist required)'')
   \<and> (analyzePersonality False url ts = SendRequest r \<longrightarrow>
      spotifyUrl r = None \<and> (\<exists>vs. tracks r = Some vs \<and> 3 \<le> length vs))"
  by (auto simp: post_playlist_analyze_def manual_path_def no_input_error_def analyzePersonality_def
      Let_def split: option.splits list.splits if_splits)

lemma incomplete_count:
  "length (filter (\<lambda>track. trim (title track) \<noteq> [] \<and> trim (artist track) \<noteq> []) incomplete_tracks) < 3"
  by code_simp

lemma three_tracks_sent:
  "analyzePersonality False [] three_tracks
     = SendRequest \<lparr>spotifyUrl = None,
         tracks = Some [track_of ''Imagine'' ''John Lennon'', track_of ''Yesterday'' ''The Beatles'',
                        track_of ''Help'' ''The Beatles'']\<rparr>"
  by code_simp

theorem manual_tracks_rejected_witness:
  "\<not> truthy (spotifyUrl \<lparr>spotifyUrl = None, tracks = Some []\<rparr>)
   \<and> post_playlist_analyze parse_braces ai_json_env \<lparr>spotifyUrl = None, tracks = Some []\<rparr>
       = (no_input_error, [])
   \<and> analyzePersonality False [] incomplete_tracks
      = ShowError ''Please add at least 3 complete songs (title and artist required)''
   \<and> (\<exists>vs. tracks \<lparr>spotifyUrl = None,
         tracks = Some [track_of ''Imagine'' ''John Lennon'', track_of ''Yesterday'' ''The Beatles'',
                        track_of ''Help'' ''The Beatles'']\<rparr> = Some vs \<and> 3 \<le> length vs)"
proof -
  have a: "\<not> truthy (spotifyUrl \<lparr>spotifyUrl = None, tracks = Some []\<rparr>)"
    by (simp add: truthy_def)
  from a incomplete_count
    manual_tracks_rejected [of "\<lparr>spotifyUrl = None, tracks = Some []\<rparr>" parse_braces ai_json_env
        incomplete_tracks "[]"]
  have "post_playlist_analyze parse_braces ai_json_env \<lparr>spotifyUrl = None, tracks = Some []\<rparr>
       = (no_input_error, [])
     \<and> analyzePersonality False [] incomplete_tracks
      = ShowError ''Please add at least 3 complete songs (title and artist required)''"
    by simp
  moreover from three_tracks_sent
    manual_tracks_rejected [of "\<lparr>spotifyUrl = None, tracks = Some []\<rparr>" parse_braces ai_json_env
        three_tracks "[]"
        "\<lparr>spotifyUrl = None,
         tracks = Some [track_of ''Imagine'' ''John Lennon'', track_of ''Yesterday'' ''The Beatles'',
                        track_of ''Help'' ''The Beatles'']\<rparr>"]
  have "\<exists>vs. tracks \<lparr>spotifyUrl = None,
         tracks = Some [track_of ''Imagine'' ''John Lennon'', track_of ''Yesterday'' ''The Beatles'',
                        track_of ''Help'' ''The Beatles'']\<rparr> = Some vs \<and> 3 \<le> length vs"
    by blast
  ultimately show ?thesis using a by blast
qed

section \<open>Song recommendations\<close>

text \<open>
  C7: for every mood that passes the check of POST /api/recommend-songs (a number from 0 to
  4), when the AI service has answered and its answer, trimmed and without its fence, does
  not parse as JSON, the endpoint answers with status 200 and the fixed fallback: a
  recommendations array of two (mood 3 and above) or three items and a playlist_vibe string.
\<close>

theorem recommend_fallback:
  assumes "as_number (rq_mood body) = Some m" and "0 \<le> m" and "m \<le> 4"
    and "gemini_key env" and "ai_reply env = Some t" and "parse (strip_fences (trim t)) = None"
  shows "post_recommend_songs parse env body = (fallbackRecommendations m, [AiGenerate])
     \<and> status (fallbackRecommendations m) = 200
     \<and> (\<exists>recs vibe. fallbackRecommendations m = FallbackRecommendations recs vibe
           \<and> recs \<noteq> [] \<and> length recs = (if 3 \<le> m then 2 else 3)
           \<and> vibe = (if 3 \<le> m then ''Upbeat and energizing vibes''
                      else ''Calming and restorative atmosphere''))"
  using assms
  by (simp add: post_recommend_songs_def fallbackRecommendations_def)

theorem recommend_fallback_witness:
  "as_number (rq_mood sad_request) = Some 1
   \<and> gemini_key ai_prose_env
   \<and> ai_reply ai_prose_env = Some (js ''Sure! Here are five songs'')
   \<and> parse_braces (strip_fences (trim (js ''Sure! Here are five songs''))) = None
   \<and> post_recommend_songs parse_braces ai_prose_env sad_request = (fallbackRecommendations 1, [AiGenerate])
   \<and> status (fallbackRecommendations 1) = 200"
proof -
  have a: "as_number (rq_mood sad_request) = Some 1"
    by (simp add: as_number_def sad_request_def)
  have b: "gemini_key ai_prose_env"
    by (simp add: ai_prose_env_def)
  have c: "ai_reply ai_prose_env = Some (js ''Sure! Here are five songs'')"
    by (simp add: ai_prose_env_def)
  have d: "parse_braces (strip_fences (trim (js ''Sure! Here are five songs''))) = None"
    by code_simp
  from a b c d
    recommend_fallback [of sad_request 1 ai_prose_env "js ''Sure! Here are five songs''" parse_braces]
  show ?thesis by simp
qed

text \<open>The fence of a fenced reply is removed before the parse.\<close>

lemma strip_fences_example:
  "strip_fences (trim (js ''  ```json{}```  '')) = js ''{}''"
  by code_simp

end
